theory Spec2Isabelle
  imports Main "HOL-Library.Word" "HOL-Library.Sublist"
begin

section \<open>Data model of the storage package\<close>

text \<open>
  A Go \<^verbatim>\<open>[]byte\<close> is a list of 8-bit words; the nil slice and the empty slice
  \<^verbatim>\<open>[]byte{}\<close> are kept apart (\<open>None\<close> is nil). A \<^verbatim>\<open>*string\<close> is a
  \<open>string option\<close> (\<open>None\<close> is the nil pointer).
\<close>

type_synonym byte = "8 word"
type_synonym bytes = "byte list option"

text \<open>\<^verbatim>\<open>type cacheEntry struct { chunk []byte; etag *string }\<close> (cache.go).\<close>

record cacheEntry =
  chunk :: bytes
  etag :: "string option"

text \<open>The zero value \<^verbatim>\<open>cacheEntry{}\<close>.\<close>

definition cacheEntry_zero :: cacheEntry where
  "cacheEntry_zero = \<lparr>chunk = None, etag = None\<rparr>"

text \<open>
  The fields of \<^verbatim>\<open>net/url.URL\<close> that the package reads. The other fields (Opaque,
  User, Fragment, ForceQuery) are taken as empty.
\<close>

record url =
  Scheme :: string
  Host :: string
  Path :: string
  RawQuery :: string

text \<open>
  \<^verbatim>\<open>(*url.URL).String()\<close> of the standard library, on the fields above and for text
  that needs no percent-escaping: the scheme with a colon, two slashes before the host,
  a slash between a host and a path that does not start with one, and the query after a
  question mark.
\<close>

definition url_String :: "url \<Rightarrow> string" where
  "url_String u =
     (if Scheme u \<noteq> [] then Scheme u @ '':'' else []) @
     (if Scheme u \<noteq> [] \<or> Host u \<noteq> []
      then (if Host u \<noteq> [] \<or> Path u \<noteq> [] then ''//'' else []) @ Host u
      else []) @
     (if Path u \<noteq> [] \<and> hd (Path u) \<noteq> CHR ''/'' \<and> Host u \<noteq> [] then ''/'' else []) @
     (if Scheme u = [] \<and> Host u = [] \<and>
         CHR '':'' \<in> set (takeWhile (\<lambda>c. c \<noteq> CHR ''/'') (Path u))
      then ''./'' else []) @
     Path u @
     (if RawQuery u \<noteq> [] then ''?'' @ RawQuery u else [])"

text \<open>
  \<^verbatim>\<open>func newCacheKey(bloburl *url.URL) string {
    return fmt.Sprintf("%s/%s", bloburl.Host, bloburl.Path) }\<close>
\<close>

definition newCacheKey :: "url \<Rightarrow> string" where
  "newCacheKey bloburl = Host bloburl @ ''/'' @ Path bloburl"

subsection \<open>Errors\<close>

text \<open>
  Modelled from the spec: the package \<^verbatim>\<open>api/internal\<close> with the domain errors is not
  among the sources. The spec (section 7) gives the taxonomy InternalError, NotFound,
  PermissionDenied; the sources call the constructors \<^verbatim>\<open>internal.InternalError(msg)\<close>,
  \<^verbatim>\<open>internal.NewInternalError()\<close>, \<^verbatim>\<open>internal.NotFound(msg)\<close>,
  \<^verbatim>\<open>internal.PermissionDeniedFromStatus(status)\<close> and \<^verbatim>\<open>internal.QueryError(msg)\<close>.
  Each constructor is a constructor of the datatype, so nothing is assumed about what it
  computes; \<open>errkind_of\<close> gives the class of the taxonomy.
\<close>

datatype domain_error =
    InternalError string
  | NewInternalError
  | NotFound string
  | PermissionDeniedFromStatus int
  | QueryError string

datatype errkind = InternalErrorKind | NotFoundKind | PermissionDeniedKind | QueryErrorKind

fun errkind_of :: "domain_error \<Rightarrow> errkind" where
  "errkind_of (InternalError msg) = InternalErrorKind"
| "errkind_of NewInternalError = InternalErrorKind"
| "errkind_of (NotFound msg) = NotFoundKind"
| "errkind_of (PermissionDeniedFromStatus status) = PermissionDeniedKind"
| "errkind_of (QueryError msg) = QueryErrorKind"

text \<open>
  The values of Go's \<^verbatim>\<open>error\<close> interface that the package handles:
  \<^item> \<open>StorageError status description\<close>: a value \<^verbatim>\<open>azblob.StorageError\<close>, with the
    status code of its response (\<^verbatim>\<open>e.Response().StatusCode\<close>);
  \<^item> \<open>StorageErrorPtr\<close>: a pointer \<^verbatim>\<open>*azblob.StorageError\<close>;
  \<^item> \<open>AzInternalError cause\<close>: the envelope \<^verbatim>\<open>*azblob.InternalError\<close> in which the
    library wraps what it returns;
  \<^item> \<open>Wrapped msg cause\<close>: any other error with an \<^verbatim>\<open>Unwrap\<close> method;
  \<^item> \<open>Foreign type msg\<close>: any other error, with the name of its concrete type;
  \<^item> \<open>DomainErr\<close>: an error of the package \<^verbatim>\<open>internal\<close>.
  A nil \<^verbatim>\<open>error\<close> is \<open>None\<close> of \<open>goerror option\<close>.
\<close>

datatype goerror =
    StorageError int string
  | StorageErrorPtr int string
  | AzInternalError goerror
  | Wrapped string goerror
  | Foreign string string
  | DomainErr domain_error

definition StatusNotModified :: int where "StatusNotModified = 304"
definition StatusUnauthorized :: int where "StatusUnauthorized = 401"
definition StatusForbidden :: int where "StatusForbidden = 403"
definition StatusNotFound :: int where "StatusNotFound = 404"

text \<open>
  The chain that \<^verbatim>\<open>errors.As\<close> walks: the error, then what it wraps, and so on.
\<close>

fun chain :: "goerror \<Rightarrow> goerror list" where
  "chain (AzInternalError cause) = AzInternalError cause # chain cause"
| "chain (Wrapped msg cause) = Wrapped msg cause # chain cause"
| "chain e = [e]"

text \<open>
  \<^verbatim>\<open>var stgErr *azblob.StorageError; errors.As(err, &stgErr)\<close>: the first error of the
  chain that is a \<^verbatim>\<open>*azblob.StorageError\<close>, if there is one.
\<close>

fun errors_As :: "goerror \<Rightarrow> (int \<times> string) option" where
  "errors_As (StorageErrorPtr status d) = Some (status, d)"
| "errors_As (AzInternalError cause) = errors_As cause"
| "errors_As (Wrapped msg cause) = errors_As cause"
| "errors_As e = None"

text \<open>
  \<^verbatim>\<open>func UnpackAzStorageError(err error) error {
    var stgErr *azblob.StorageError
    if errors.As(err, &stgErr) { return *stgErr }
    return err }\<close>
  \<^verbatim>\<open>errors.As\<close> is false on a nil error.
\<close>

definition UnpackAzStorageError :: "goerror option \<Rightarrow> goerror option" where
  "UnpackAzStorageError err =
     (case err of
        None \<Rightarrow> None
      | Some e \<Rightarrow>
          (case errors_As e of
             Some (status, d) \<Rightarrow> Some (StorageError status d)
           | None \<Rightarrow> err))"

text \<open>
  \<^verbatim>\<open>errors.Is(cause, StorageError{})\<close>, which the envelope's \<^verbatim>\<open>Error\<close> method
  asks of its cause: true on a storage error, by value or by pointer, and on what wraps
  one with \<^verbatim>\<open>Unwrap\<close>. The envelope itself has no \<^verbatim>\<open>Unwrap\<close> and its \<^verbatim>\<open>Is\<close>
  accepts envelopes only.
\<close>

fun errors_Is_StorageError :: "goerror \<Rightarrow> bool" where
  "errors_Is_StorageError (StorageError status d) = True"
| "errors_Is_StorageError (StorageErrorPtr status d) = True"
| "errors_Is_StorageError (Wrapped msg cause) = errors_Is_StorageError cause"
| "errors_Is_StorageError e = False"

text \<open>
  \<^verbatim>\<open>err.Error()\<close>. The envelope \<^verbatim>\<open>*azblob.InternalError\<close> gives the text of a
  storage error as it is and puts the line \<^verbatim>\<open>===== INTERNAL ERROR =====\<close> before the
  text of any other cause. The text of a domain error is computed in the package
  \<^verbatim>\<open>internal\<close>, so it is the parameter \<open>etext\<close>.
\<close>

fun Error :: "(domain_error \<Rightarrow> string) \<Rightarrow> goerror \<Rightarrow> string" where
  "Error etext (StorageError status d) = d"
| "Error etext (StorageErrorPtr status d) = d"
| "Error etext (AzInternalError cause) =
     (if errors_Is_StorageError cause then Error etext cause
      else ''===== INTERNAL ERROR ====='' @ [CHR 0x0A] @ Error etext cause)"
| "Error etext (Wrapped msg cause) = msg"
| "Error etext (Foreign ty msg) = msg"
| "Error etext (DomainErr e) = etext e"

subsection \<open>Panics, effects and the blob library\<close>

datatype panic = NilDereference | TypeAssertion

text \<open>
  What a call does besides returning: the cache lookup, the download issued to the origin,
  a line written to the log, and the statement \<^verbatim>\<open>go c.cache.set(key, cold)\<close>, which
  starts the cache write in a goroutine of its own and does not run it.
\<close>

datatype logarg = ArgStr string | ArgURL url | ArgErr goerror | ArgType goerror

datatype event =
    CacheGet string
  | NetDownload string "string option"
  | NetContainerDownload string string
  | LogPrintf string "logarg list"
  | GoCacheSet string cacheEntry

text \<open>
  The response of \<^verbatim>\<open>client.Download\<close>: its \<^verbatim>\<open>ETag\<close> header and what
  \<^verbatim>\<open>ioutil.ReadAll(dl.Body(...))\<close> returns for its body.
\<close>

record DownloadResponse =
  ETag :: "string option"
  ReadAll_Body :: "bytes \<times> goerror option"

text \<open>
  The library \<^verbatim>\<open>azblob\<close> and the origin behind it, as the package calls them: the
  two client constructors (given the text of the URL, they return an error or none), the
  download of a blob client (given the URL and the \<^verbatim>\<open>IfNoneMatch\<close> condition) and the
  download of the blob client that a container client makes for a blob name. The context
  is not modelled: a cancelled download is one that returns an error.
\<close>

record azblob =
  NewBlobClientWithNoCredential :: "string \<Rightarrow> goerror option"
  NewContainerClientWithNoCredential :: "string \<Rightarrow> goerror option"
  BlobDownload :: "string \<Rightarrow> string option \<Rightarrow> goerror + DownloadResponse"
  ContainerBlobDownload :: "string \<Rightarrow> string \<Rightarrow> goerror + DownloadResponse"

section \<open>The storage client\<close>

text \<open>
  \<^verbatim>\<open>func (c *AzStorage) download(ctx, bloburl *url.URL, etag *string) (cacheEntry, error)\<close>:
  the client is made from \<^verbatim>\<open>bloburl.String()\<close>; a failure there is an
  \<^verbatim>\<open>internal.InternalError(err.Error())\<close>; a failed download returns
  \<^verbatim>\<open>util.UnpackAzStorageError(err)\<close>; otherwise the body is read and returned with the
  response's ETag and the error of the read.
\<close>

definition download ::
  "(domain_error \<Rightarrow> string) \<Rightarrow> azblob \<Rightarrow> url \<Rightarrow> string option
     \<Rightarrow> event list \<times> cacheEntry \<times> goerror option" where
  "download etext az bloburl etg =
     (case NewBlobClientWithNoCredential az (url_String bloburl) of
        Some err \<Rightarrow> ([], cacheEntry_zero, Some (DomainErr (InternalError (Error etext err))))
      | None \<Rightarrow>
          (case BlobDownload az (url_String bloburl) etg of
             Inl err \<Rightarrow>
               ([NetDownload (url_String bloburl) etg], cacheEntry_zero,
                UnpackAzStorageError (Some err))
           | Inr dl \<Rightarrow>
               ([NetDownload (url_String bloburl) etg],
                \<lparr>chunk = fst (ReadAll_Body dl), etag = ETag dl\<rparr>,
                snd (ReadAll_Body dl))))"

text \<open>
  \<^verbatim>\<open>func (c *AzStorage) Get(ctx, bloburl *url.URL) ([]byte, error)\<close>. The parameter
  \<open>cget\<close> is the method \<^verbatim>\<open>c.cache.get\<close> of the cache the client holds. The result is
  the trace of effects and either a panic or the pair returned. In the branch of a hit
  followed by a successful download, \<^verbatim>\<open>*cached.etag\<close> is evaluated as an argument of
  \<^verbatim>\<open>log.Printf\<close>, before anything is logged or returned.
\<close>

definition Get ::
  "(domain_error \<Rightarrow> string) \<Rightarrow> (string \<Rightarrow> cacheEntry \<times> bool) \<Rightarrow> azblob \<Rightarrow> url option
     \<Rightarrow> event list \<times> (panic + bytes \<times> goerror option)" where
  "Get etext cget az bloburl =
     (case bloburl of
        None \<Rightarrow> ([], Inr (Some [], Some (DomainErr (InternalError ''blob URL is nil''))))
      | Some u \<Rightarrow>
          (let key = newCacheKey u;
               (cached, hit) = cget key;
               (net, cold, err) = download etext az u (etag cached);
               tr = CacheGet key # net
           in case err of
                None \<Rightarrow>
                  (if hit then
                     (case etag cached of
                        None \<Rightarrow> (tr, Inl NilDereference)
                      | Some tag \<Rightarrow>
                          (tr @ [LogPrintf ''ETag (= %s) expired for %v; investigate immediately''
                                   [ArgStr tag, ArgURL u]],
                           Inr (None, Some (DomainErr NewInternalError))))
                   else (tr @ [GoCacheSet key cold], Inr (chunk cold, None)))
              | Some e \<Rightarrow>
                  (case e of
                     StorageError status d \<Rightarrow>
                       (if status = StatusNotModified then (tr, Inr (chunk cached, None))
                        else if status = StatusNotFound then
                          (tr, Inr (None, Some (DomainErr (NotFound
                                 (''Not found: '' @ Host u @ ''/'' @ Path u)))))
                        else if status = StatusForbidden then
                          (tr, Inr (None, Some (DomainErr (PermissionDeniedFromStatus status))))
                        else if status = StatusUnauthorized then
                          (tr, Inr (None, Some (DomainErr (PermissionDeniedFromStatus status))))
                        else
                          (tr @ [LogPrintf ''Unhandled azblob.StorageError: %v'' [ArgErr e]],
                           Inr (None, Some (DomainErr (InternalError (Error etext e))))))
                   | _ \<Rightarrow>
                       (tr @ [LogPrintf ''Unhandled error type %T (= %v)'' [ArgType e, ArgErr e]],
                        Inr (None, Some (DomainErr (InternalError (Error etext e))))))))"

text \<open>The cache writes that a trace starts, and the downloads it issues.\<close>

fun cache_writes :: "event list \<Rightarrow> (string \<times> cacheEntry) list" where
  "cache_writes [] = []"
| "cache_writes (GoCacheSet key val # evs) = (key, val) # cache_writes evs"
| "cache_writes (ev # evs) = cache_writes evs"

text \<open>
  What the started writes do once their goroutines run: each calls the \<^verbatim>\<open>set\<close>
  method \<open>cset\<close> of the cache, here in the order in which they were started.
\<close>

definition run_cache_writes ::
  "('s \<Rightarrow> string \<Rightarrow> cacheEntry \<Rightarrow> 's) \<Rightarrow> event list \<Rightarrow> 's \<Rightarrow> 's" where
  "run_cache_writes cset tr c = foldl (\<lambda>c' (key, val). cset c' key val) c (cache_writes tr)"

section \<open>The cache backends\<close>

text \<open>
  A value of Go's \<^verbatim>\<open>interface{}\<close>, which is what the library \<^verbatim>\<open>ristretto\<close>
  stores: nil, a \<^verbatim>\<open>cacheEntry\<close>, or a value of another type (its type's name).
\<close>

datatype iface = INil | ICacheEntry cacheEntry | IOther string

text \<open>
  The embedded \<^verbatim>\<open>ristretto.Cache\<close>. The library is not part of the repository; the
  part of it that the two wrappers reach is modelled after the library's own sources.
  A cache is a store from keys to values and a buffer of items waiting to be taken in
  (the channel \<^verbatim>\<open>setBuf\<close>, of capacity \<^verbatim>\<open>setBufSize = 32 * 1024\<close>). Keys stand
  for their hashes; expiry, metrics and the read buffer are left out.
\<close>

datatype itemFlag = itemNew | itemUpdate

record Item =
  flag :: itemFlag
  Key :: string
  Value :: iface
  Cost :: int

record Cache =
  store :: "string \<rightharpoonup> iface"
  setBuf :: "Item list"

definition setBufSize :: nat where
  "setBufSize = 32 * 1024"

text \<open>\<^verbatim>\<open>ristretto.NewCache\<close>: an empty store and an empty buffer.\<close>

definition NewCache :: Cache where
  "NewCache = \<lparr>store = Map.empty, setBuf = []\<rparr>"

text \<open>
  \<^verbatim>\<open>func (c *Cache) Set(key, value interface{}, cost int64) bool\<close>: a key that is in
  the store has its value replaced at once (\<^verbatim>\<open>c.store.Update\<close>) and the item is
  flagged as an update; a new key leaves the store as it is. The item is then sent to
  \<^verbatim>\<open>setBuf\<close>; when the buffer is full the item is dropped, and the result is true for
  an update only.
\<close>

definition Cache_Set :: "Cache \<Rightarrow> string \<Rightarrow> iface \<Rightarrow> int \<Rightarrow> Cache \<times> bool" where
  "Cache_Set c key v cost =
     (let updated = (store c key \<noteq> None);
          c' = (if updated then c\<lparr>store := (store c)(key \<mapsto> v)\<rparr> else c);
          i = \<lparr>flag = (if updated then itemUpdate else itemNew),
               Key = key, Value = v, Cost = cost\<rparr>
      in if length (setBuf c') < setBufSize then (c'\<lparr>setBuf := setBuf c' @ [i]\<rparr>, True)
         else (c', updated))"

text \<open>\<^verbatim>\<open>func (c *Cache) Get(key interface{}) (interface{}, bool)\<close> reads the store.\<close>

definition Cache_Get :: "Cache \<Rightarrow> string \<Rightarrow> iface \<times> bool" where
  "Cache_Get c key = (case store c key of None \<Rightarrow> (INil, False) | Some v \<Rightarrow> (v, True))"

text \<open>
  The admission policy (\<^verbatim>\<open>c.policy.Add(key, cost)\<close>) decides from counters of its
  own; here it is a parameter that, for the store as it is, a key and a cost, gives the
  keys it evicts and whether the new item is added.
\<close>

type_synonym policy = "(string \<rightharpoonup> iface) \<Rightarrow> string \<Rightarrow> int \<Rightarrow> string list \<times> bool"

text \<open>
  One turn of the goroutine \<^verbatim>\<open>processItems\<close> on an item taken from \<^verbatim>\<open>setBuf\<close>:
  a new item is put in the store when the policy adds it, and the policy's victims are
  deleted from the store; an update only changes the policy's costs.
\<close>

definition processItem :: "policy \<Rightarrow> Item \<Rightarrow> (string \<rightharpoonup> iface) \<Rightarrow> (string \<rightharpoonup> iface)" where
  "processItem pol i s =
     (case flag i of
        itemUpdate \<Rightarrow> s
      | itemNew \<Rightarrow>
          (let (victims, added) = pol s (Key i) (Cost i);
               s' = (if added then s(Key i \<mapsto> Value i) else s)
           in fold (\<lambda>victim m. m(victim := None)) victims s'))"

text \<open>The goroutine has taken every waiting item out of the buffer, in order.\<close>

definition processItems :: "policy \<Rightarrow> Cache \<Rightarrow> Cache" where
  "processItems pol c =
     c\<lparr>store := fold (processItem pol) (setBuf c) (store c), setBuf := []\<rparr>"

text \<open>
  \<^verbatim>\<open>func (c *ristrettoCache) set(key string, val cacheEntry) { c.Set(key, val, 0) }\<close>:
  the cost is 0 and the boolean that \<^verbatim>\<open>Set\<close> returns is dropped.
\<close>

definition ristrettoCache_set :: "Cache \<Rightarrow> string \<Rightarrow> cacheEntry \<Rightarrow> Cache" where
  "ristrettoCache_set c key val = fst (Cache_Set c key (ICacheEntry val) 0)"

text \<open>
  \<^verbatim>\<open>func (c *ristrettoCache) get(key string) (val cacheEntry, hit bool) {
    v, hit := c.Get(key)
    if hit { val = v.(cacheEntry) }
    return }\<close>
  The type assertion panics on a value that is not a \<^verbatim>\<open>cacheEntry\<close>; on a miss
  \<^verbatim>\<open>val\<close> is the zero value.
\<close>

definition ristrettoCache_get :: "Cache \<Rightarrow> string \<Rightarrow> panic + cacheEntry \<times> bool" where
  "ristrettoCache_get c key =
     (let (v, hit) = Cache_Get c key
      in if hit then
           (case v of ICacheEntry val \<Rightarrow> Inr (val, hit) | _ \<Rightarrow> Inl TypeAssertion)
         else Inr (cacheEntry_zero, hit))"

text \<open>
  \<^verbatim>\<open>type noCache struct {}
  func (c *noCache) set(key string, val cacheEntry) {}
  func (c *noCache) get(key string) (cacheEntry, bool) { return cacheEntry{}, false }\<close>
\<close>

definition noCache_set :: "unit \<Rightarrow> string \<Rightarrow> cacheEntry \<Rightarrow> unit" where
  "noCache_set c key val = ()"

definition noCache_get :: "unit \<Rightarrow> string \<Rightarrow> cacheEntry \<times> bool" where
  "noCache_get c key = (cacheEntry_zero, False)"

section \<open>The manifest\<close>

text \<open>
  \<^verbatim>\<open>func FetchManifest(ctx, containerURL *url.URL) ([]byte, error)\<close> (package util):
  an error of the container client is returned as it is, an error of the download goes
  through \<open>UnpackAzStorageError\<close>, and otherwise the result is what reading the body
  returns. There is no nil check, so \<^verbatim>\<open>containerURL.String()\<close> on a nil pointer
  panics.
\<close>

definition FetchManifest ::
  "azblob \<Rightarrow> url option \<Rightarrow> event list \<times> (panic + bytes \<times> goerror option)" where
  "FetchManifest az containerURL =
     (case containerURL of
        None \<Rightarrow> ([], Inl NilDereference)
      | Some u \<Rightarrow>
          (case NewContainerClientWithNoCredential az (url_String u) of
             Some err \<Rightarrow> ([], Inr (None, Some err))
           | None \<Rightarrow>
               (case ContainerBlobDownload az (url_String u) ''manifest.json'' of
                  Inl err \<Rightarrow>
                    ([NetContainerDownload (url_String u) ''manifest.json''],
                     Inr (None, UnpackAzStorageError (Some err)))
                | Inr dl \<Rightarrow>
                    ([NetContainerDownload (url_String u) ''manifest.json''],
                     Inr (ReadAll_Body dl)))))"

datatype 'r request_result = Aborted goerror | Completed bytes 'r

text \<open>
  Modelled from the spec: the request handler that calls \<open>FetchManifest\<close> and then reads
  the fragments is not among the sources. Section 4.4: the manifest call is synchronous
  on the request's path, any error of it aborts the whole request, and the fragments are
  fetched only after it has succeeded. The parameter \<open>fetch_fragments\<close> is everything
  the request does with the manifest afterwards, with the trace of its effects.
\<close>

definition handle_request ::
  "azblob \<Rightarrow> url option \<Rightarrow> (bytes \<Rightarrow> event list \<times> 'r)
     \<Rightarrow> event list \<times> (panic + 'r request_result)" where
  "handle_request az containerURL fetch_fragments =
     (case FetchManifest az containerURL of
        (tr, Inl p) \<Rightarrow> (tr, Inl p)
      | (tr, Inr (manifest, Some err)) \<Rightarrow> (tr, Inr (Aborted err))
      | (tr, Inr (manifest, None)) \<Rightarrow>
          (let (ftr, r) = fetch_fragments manifest
           in (tr @ ftr, Inr (Completed manifest r))))"

section \<open>Stubs of the origin and of the cache\<close>

text \<open>
  Concrete collaborators, on which the theorems below are run: the locator
  \<^verbatim>\<open>http://h/p?q\<close> as \<^verbatim>\<open>net/url\<close> holds it (the path keeps its leading slash),
  an origin that answers "not modified" to the validator it has and the body otherwise,
  an origin that always sends the body, an origin whose downloads fail, a cache that
  holds one entry, an empty cache, a policy that adds every item and evicts none, and a
  request that downloads two fragments.
\<close>

definition locator :: "string \<Rightarrow> url" where
  "locator q = \<lparr>Scheme = ''http'', Host = ''h'', Path = ''/p'', RawQuery = q\<rparr>"

definition origin_stub :: "bytes \<Rightarrow> string \<Rightarrow> azblob" where
  "origin_stub body tag =
     \<lparr>NewBlobClientWithNoCredential = (\<lambda>s. None),
      NewContainerClientWithNoCredential = (\<lambda>s. None),
      BlobDownload = (\<lambda>s cond.
         if cond = Some tag
         then Inl (AzInternalError (StorageErrorPtr 304 ''ConditionNotMet''))
         else Inr \<lparr>ETag = Some tag, ReadAll_Body = (body, None)\<rparr>),
      ContainerBlobDownload =
        (\<lambda>s name. Inr \<lparr>ETag = Some tag, ReadAll_Body = (body, None)\<rparr>)\<rparr>"

definition fresh_origin :: "bytes \<Rightarrow> string option \<Rightarrow> azblob" where
  "fresh_origin body tag =
     \<lparr>NewBlobClientWithNoCredential = (\<lambda>s. None),
      NewContainerClientWithNoCredential = (\<lambda>s. None),
      BlobDownload = (\<lambda>s cond. Inr \<lparr>ETag = tag, ReadAll_Body = (body, None)\<rparr>),
      ContainerBlobDownload = (\<lambda>s name. Inr \<lparr>ETag = tag, ReadAll_Body = (body, None)\<rparr>)\<rparr>"

definition failing_origin :: "goerror \<Rightarrow> azblob" where
  "failing_origin err =
     \<lparr>NewBlobClientWithNoCredential = (\<lambda>s. None),
      NewContainerClientWithNoCredential = (\<lambda>s. None),
      BlobDownload = (\<lambda>s cond. Inl err),
      ContainerBlobDownload = (\<lambda>s name. Inl err)\<rparr>"

definition holding :: "string \<Rightarrow> cacheEntry \<Rightarrow> string \<Rightarrow> cacheEntry \<times> bool" where
  "holding key val k = (if k = key then (val, True) else (cacheEntry_zero, False))"

definition nothing_cached :: "string \<Rightarrow> cacheEntry \<times> bool" where
  "nothing_cached k = (cacheEntry_zero, False)"

definition no_text :: "domain_error \<Rightarrow> string" where
  "no_text e = []"

definition admit_all :: policy where
  "admit_all s key cost = ([], True)"

definition two_fragments :: "bytes \<Rightarrow> event list \<times> nat" where
  "two_fragments manifest =
     ([NetDownload ''http://h/p/0'' None, NetDownload ''http://h/p/1'' None], 2)"

section \<open>Auxiliary facts\<close>

lemma newCacheKey_query_free:
  "newCacheKey (u\<lparr>RawQuery := q\<rparr>) = newCacheKey u"
  by (simp add: newCacheKey_def)

lemma url_String_locator: "url_String (locator q) = ''http://h/p'' @ (if q = [] then [] else ''?'' @ q)"
  by (simp add: url_String_def locator_def)

lemma newCacheKey_locator: "newCacheKey (locator q) = ''h//p''"
  by (simp add: newCacheKey_def locator_def)

lemma download_starts_no_write:
  "download etext az u t = (net, cold, err) \<Longrightarrow> cache_writes net = []"
  by (auto simp: download_def split: option.splits sum.splits)

lemma errors_As_in_chain:
  "errors_As e = Some (s, d) \<Longrightarrow> StorageErrorPtr s d \<in> set (chain e)"
  by (induction e) auto

lemma errors_As_none_chain:
  "errors_As e = None \<Longrightarrow> StorageErrorPtr s d \<notin> set (chain e)"
  by (induction e) auto

lemma download_fresh_origin:
  "download etext (fresh_origin body tag) (locator ''a=1'') cond =
     ([NetDownload ''http://h/p?a=1'' cond], \<lparr>chunk = body, etag = tag\<rparr>, None)"
  by (simp add: download_def fresh_origin_def url_String_locator)

lemma download_failing_origin:
  "download etext (failing_origin err) (locator ''a=1'') cond =
     ([NetDownload ''http://h/p?a=1'' cond], cacheEntry_zero, UnpackAzStorageError (Some err))"
  by (simp add: download_def failing_origin_def url_String_locator)

lemma download_origin_stub_same:
  "download etext (origin_stub body tag) (locator ''a=1'') (Some tag) =
     ([NetDownload ''http://h/p?a=1'' (Some tag)], cacheEntry_zero,
      Some (StorageError 304 ''ConditionNotMet''))"
  by (simp add: download_def origin_stub_def url_String_locator UnpackAzStorageError_def)

lemma download_origin_stub_none:
  "download etext (origin_stub body tag) (locator ''a=1'') None =
     ([NetDownload ''http://h/p?a=1'' None], \<lparr>chunk = body, etag = Some tag\<rparr>, None)"
  by (simp add: download_def origin_stub_def url_String_locator)

lemma fold_delete_other:
  "k \<notin> set victims \<Longrightarrow> fold (\<lambda>victim m. m(victim := None)) victims s k = s k"
  by (induction victims arbitrary: s) auto

lemma cache_writes_append:
  "cache_writes (xs @ ys) = cache_writes xs @ cache_writes ys"
  by (induction xs rule: cache_writes.induct) simp_all

text \<open>
  After a cold fetch, the one write that \<open>Get\<close> has started stores the fresh entry
  under the derived key when it runs.
\<close>

lemma Get_cold_fetch_then_write:
  assumes "cget (newCacheKey u) = (cached, False)"
    and "download etext az u (etag cached) = (net, cold, None)"
  shows "run_cache_writes cset (fst (Get etext cget az (Some u))) c = cset c (newCacheKey u) cold"
  using assms download_starts_no_write [OF assms(2)]
  by (simp add: Get_def Let_def run_cache_writes_def cache_writes_append)

text \<open>The no-op backend never retains anything.\<close>

lemma noCache_set_get:
  "noCache_get (noCache_set c k v) k = (cacheEntry_zero, False)"
  by (simp add: noCache_get_def)

section \<open>Consistency violation: a hit followed by a full download\<close>

text \<open>
  Claim C1: whenever the cache lookup is a hit and the download, made conditional on the
  validator of the cached entry, nevertheless succeeds with a full fresh payload, \<open>Get\<close>
  logs the event, with the validator and the locator, and returns nil bytes (neither the
  cached payload nor the fresh one) with \<^verbatim>\<open>internal.NewInternalError()\<close>, an
  InternalError.
\<close>

theorem Get_hit_conditional_fresh_InternalError:
  assumes "cget (newCacheKey u) = (cached, True)" and "etag cached = Some tag"
    and "download etext az u (Some tag) = (net, cold, None)"
  shows "Get etext cget az (Some u) =
           (CacheGet (newCacheKey u) # net @
              [LogPrintf ''ETag (= %s) expired for %v; investigate immediately''
                 [ArgStr tag, ArgURL u]],
            Inr (None, Some (DomainErr NewInternalError))) \<and>
         errkind_of NewInternalError = InternalErrorKind"
  using assms by (simp add: Get_def)

theorem Get_hit_conditional_fresh_InternalError_witness:
  "holding ''h//p'' \<lparr>chunk = Some [1, 2], etag = Some ''v1''\<rparr> (newCacheKey (locator ''a=1'')) =
     (\<lparr>chunk = Some [1, 2], etag = Some ''v1''\<rparr>, True) \<and>
   etag \<lparr>chunk = Some [1, 2], etag = Some ''v1''\<rparr> = Some ''v1'' \<and>
   download no_text (fresh_origin (Some [4, 5]) (Some ''v2'')) (locator ''a=1'') (Some ''v1'') =
     ([NetDownload ''http://h/p?a=1'' (Some ''v1'')],
      \<lparr>chunk = Some [4, 5], etag = Some ''v2''\<rparr>, None) \<and>
   Get no_text (holding ''h//p'' \<lparr>chunk = Some [1, 2], etag = Some ''v1''\<rparr>)
       (fresh_origin (Some [4, 5]) (Some ''v2'')) (Some (locator ''a=1'')) =
     ([CacheGet ''h//p'', NetDownload ''http://h/p?a=1'' (Some ''v1''),
       LogPrintf ''ETag (= %s) expired for %v; investigate immediately''
         [ArgStr ''v1'', ArgURL (locator ''a=1'')]],
      Inr (None, Some (DomainErr NewInternalError)))"
proof -
  have a: "holding ''h//p'' \<lparr>chunk = Some [1, 2], etag = Some ''v1''\<rparr> (newCacheKey (locator ''a=1'')) =
     (\<lparr>chunk = Some [1, 2], etag = Some ''v1''\<rparr>, True)"
    by (simp add: holding_def newCacheKey_locator)
  have b: "etag \<lparr>chunk = Some [1, 2], etag = Some ''v1''\<rparr> = Some ''v1''" by simp
  have c: "download no_text (fresh_origin (Some [4, 5]) (Some ''v2'')) (locator ''a=1'') (Some ''v1'') =
     ([NetDownload ''http://h/p?a=1'' (Some ''v1'')],
      \<lparr>chunk = Some [4, 5], etag = Some ''v2''\<rparr>, None)"
    by (simp add: download_fresh_origin)
  from Get_hit_conditional_fresh_InternalError
         [where cget = "holding ''h//p'' \<lparr>chunk = Some [1, 2], etag = Some ''v1''\<rparr>"
            and u = "locator ''a=1''", OF a b c] a b c
  show ?thesis by (simp add: newCacheKey_locator)
qed

text \<open>
  Claim C10: in the branch of a hit followed by a successful download, the log statement
  dereferences the validator pointer of the cached entry. So whenever the lookup is a hit
  with a nil validator (the download is then unconditional) and the download succeeds,
  \<open>Get\<close> panics with a nil dereference instead of returning an InternalError; its trace
  is the lookup and the download, with no log line.
\<close>

theorem Get_hit_nil_etag_panics:
  assumes "cget (newCacheKey u) = (cached, True)" and "etag cached = None"
    and "download etext az u None = (net, cold, None)"
  shows "Get etext cget az (Some u) = (CacheGet (newCacheKey u) # net, Inl NilDereference)"
  using assms by (simp add: Get_def)

theorem Get_hit_nil_etag_panics_witness:
  "holding ''h//p'' \<lparr>chunk = Some [1, 2], etag = None\<rparr> (newCacheKey (locator ''a=1'')) =
     (\<lparr>chunk = Some [1, 2], etag = None\<rparr>, True) \<and>
   etag \<lparr>chunk = Some [1, 2], etag = None\<rparr> = None \<and>
   download no_text (origin_stub (Some [4, 5]) ''v2'') (locator ''a=1'') None =
     ([NetDownload ''http://h/p?a=1'' None], \<lparr>chunk = Some [4, 5], etag = Some ''v2''\<rparr>, None) \<and>
   Get no_text (holding ''h//p'' \<lparr>chunk = Some [1, 2], etag = None\<rparr>)
       (origin_stub (Some [4, 5]) ''v2'') (Some (locator ''a=1'')) =
     ([CacheGet ''h//p'', NetDownload ''http://h/p?a=1'' None], Inl NilDereference)"
proof -
  have a: "holding ''h//p'' \<lparr>chunk = Some [1, 2], etag = None\<rparr> (newCacheKey (locator ''a=1'')) =
     (\<lparr>chunk = Some [1, 2], etag = None\<rparr>, True)"
    by (simp add: holding_def newCacheKey_locator)
  have b: "etag \<lparr>chunk = Some [1, 2], etag = None\<rparr> = None" by simp
  have c: "download no_text (origin_stub (Some [4, 5]) ''v2'') (locator ''a=1'') None =
     ([NetDownload ''http://h/p?a=1'' None], \<lparr>chunk = Some [4, 5], etag = Some ''v2''\<rparr>, None)"
    by (simp add: download_origin_stub_none)
  from Get_hit_nil_etag_panics
         [where cget = "holding ''h//p'' \<lparr>chunk = Some [1, 2], etag = None\<rparr>"
            and u = "locator ''a=1''", OF a b c] a b c
  show ?thesis by (simp add: newCacheKey_locator)
qed

section \<open>Not modified\<close>

text \<open>
  Claim C2: when the cache holds the entry \<open>\<lparr>chunk = C, etag = V\<rparr>\<close> for the derived
  key and the download, presented with \<open>V\<close>, fails with a storage error of status 304
  (not modified), \<open>Get\<close> returns \<open>C\<close> with a nil error and starts no cache write.
\<close>

theorem Get_not_modified_returns_cached:
  assumes "cget (newCacheKey u) = (\<lparr>chunk = C, etag = V\<rparr>, True)"
    and "download etext az u V = (net, cold, Some (StorageError StatusNotModified d))"
  shows "snd (Get etext cget az (Some u)) = Inr (C, None) \<and>
         cache_writes (fst (Get etext cget az (Some u))) = []"
  using assms download_starts_no_write [OF assms(2)] by (simp add: Get_def)

theorem Get_not_modified_returns_cached_witness:
  "holding ''h//p'' \<lparr>chunk = Some [1, 2], etag = Some ''v1''\<rparr> (newCacheKey (locator ''a=1'')) =
     (\<lparr>chunk = Some [1, 2], etag = Some ''v1''\<rparr>, True) \<and>
   download no_text (origin_stub (Some [4, 5]) ''v1'') (locator ''a=1'') (Some ''v1'') =
     ([NetDownload ''http://h/p?a=1'' (Some ''v1'')], cacheEntry_zero,
      Some (StorageError StatusNotModified ''ConditionNotMet'')) \<and>
   snd (Get no_text (holding ''h//p'' \<lparr>chunk = Some [1, 2], etag = Some ''v1''\<rparr>)
          (origin_stub (Some [4, 5]) ''v1'') (Some (locator ''a=1''))) = Inr (Some [1, 2], None) \<and>
   cache_writes (fst (Get no_text (holding ''h//p'' \<lparr>chunk = Some [1, 2], etag = Some ''v1''\<rparr>)
          (origin_stub (Some [4, 5]) ''v1'') (Some (locator ''a=1'')))) = []"
proof -
  have a: "holding ''h//p'' \<lparr>chunk = Some [1, 2], etag = Some ''v1''\<rparr> (newCacheKey (locator ''a=1'')) =
     (\<lparr>chunk = Some [1, 2], etag = Some ''v1''\<rparr>, True)"
    by (simp add: holding_def newCacheKey_locator)
  have b: "download no_text (origin_stub (Some [4, 5]) ''v1'') (locator ''a=1'') (Some ''v1'') =
     ([NetDownload ''http://h/p?a=1'' (Some ''v1'')], cacheEntry_zero,
      Some (StorageError StatusNotModified ''ConditionNotMet''))"
    by (simp add: download_origin_stub_same StatusNotModified_def)
  from Get_not_modified_returns_cached
         [where cget = "holding ''h//p'' \<lparr>chunk = Some [1, 2], etag = Some ''v1''\<rparr>"
            and u = "locator ''a=1''", OF a b] a b
  show ?thesis by blast
qed

section \<open>Cold fetch\<close>

text \<open>
  Claim C3: when the cache lookup is a miss and the download succeeds with the bytes
  \<open>B\<close> and the validator \<open>V2\<close>, \<open>Get\<close> returns \<open>(B, nil)\<close>, and the entry
  \<open>\<lparr>chunk = B, etag = V2\<rparr>\<close> is handed to the cache under the derived key by a
  \<^verbatim>\<open>go\<close> statement: the write is started as the last effect of the call and is not
  run by it, so the return does not wait for it. What the write stores once it runs is
  \<open>Get_cold_fetch_then_write\<close>.
\<close>

theorem Get_cold_fetch:
  assumes "cget (newCacheKey u) = (cached, False)"
    and "download etext az u (etag cached) = (net, \<lparr>chunk = B, etag = V2\<rparr>, None)"
  shows "Get etext cget az (Some u) =
    (CacheGet (newCacheKey u) # net @ [GoCacheSet (newCacheKey u) \<lparr>chunk = B, etag = V2\<rparr>],
     Inr (B, None))"
  using assms by (simp add: Get_def Let_def)

theorem Get_cold_fetch_witness:
  "nothing_cached (newCacheKey (locator ''a=1'')) = (cacheEntry_zero, False) \<and>
   download no_text (origin_stub (Some [4, 5]) ''v2'') (locator ''a=1'') (etag cacheEntry_zero) =
     ([NetDownload ''http://h/p?a=1'' None], \<lparr>chunk = Some [4, 5], etag = Some ''v2''\<rparr>, None) \<and>
   Get no_text nothing_cached (origin_stub (Some [4, 5]) ''v2'') (Some (locator ''a=1'')) =
     ([CacheGet ''h//p'', NetDownload ''http://h/p?a=1'' None,
       GoCacheSet ''h//p'' \<lparr>chunk = Some [4, 5], etag = Some ''v2''\<rparr>],
      Inr (Some [4, 5], None))"
proof -
  have a: "nothing_cached (newCacheKey (locator ''a=1'')) = (cacheEntry_zero, False)"
    by (simp add: nothing_cached_def)
  have b: "download no_text (origin_stub (Some [4, 5]) ''v2'') (locator ''a=1'') (etag cacheEntry_zero) =
     ([NetDownload ''http://h/p?a=1'' None], \<lparr>chunk = Some [4, 5], etag = Some ''v2''\<rparr>, None)"
    by (simp add: download_origin_stub_none cacheEntry_zero_def)
  from Get_cold_fetch [where cget = nothing_cached and u = "locator ''a=1''", OF a b] a b
  show ?thesis by (simp add: newCacheKey_locator)
qed

section \<open>Translation of download errors\<close>

text \<open>
  Claim C4, as stated: a download error with status 404 becomes NotFound, with 403 or 401
  PermissionDenied, and with any other reported status InternalError. Status 304 is a
  reported status other than 404, 403 and 401, and it is the error that the download
  surfaces when the origin answers "not modified"; for it \<open>Get\<close> returns the cached
  bytes and a nil error, not an InternalError.
\<close>

theorem Get_status_304_not_InternalError:
  "download no_text (origin_stub (Some [4, 5]) ''v1'') (locator ''a=1'') (Some ''v1'') =
     ([NetDownload ''http://h/p?a=1'' (Some ''v1'')], cacheEntry_zero,
      Some (StorageError 304 ''ConditionNotMet'')) \<and>
   (304::int) \<notin> {404, 403, 401} \<and>
   snd (Get no_text (holding ''h//p'' \<lparr>chunk = Some [1, 2], etag = Some ''v1''\<rparr>)
          (origin_stub (Some [4, 5]) ''v1'') (Some (locator ''a=1''))) = Inr (Some [1, 2], None)"
  by (simp add: Get_def newCacheKey_locator holding_def download_origin_stub_same StatusNotModified_def)

text \<open>
  Claim C4, amended: every download error surfaced to \<open>Get\<close>, other than a storage
  error of status 304, is translated to the domain taxonomy with nil bytes. A storage
  error of status 404 gives NotFound with the message \<^verbatim>\<open>"Not found: <host>/<path>"\<close>,
  which contains the locator's host and path; status 403 or 401 gives PermissionDenied
  (made from the status); any other status except 304 gives InternalError; and an error
  that is not a storage error gives InternalError too.
\<close>

theorem Get_error_translation:
  assumes "cget (newCacheKey u) = (cached, hit)"
    and "download etext az u (etag cached) = (net, cold, Some e)"
  shows "(\<forall>d. e = StorageError 404 d \<longrightarrow>
            snd (Get etext cget az (Some u)) =
              Inr (None, Some (DomainErr (NotFound (''Not found: '' @ Host u @ ''/'' @ Path u))))
            \<and> sublist (Host u) (''Not found: '' @ Host u @ ''/'' @ Path u)
            \<and> sublist (Path u) (''Not found: '' @ Host u @ ''/'' @ Path u))
       \<and> (\<forall>s d. e = StorageError s d \<and> (s = 403 \<or> s = 401) \<longrightarrow>
            snd (Get etext cget az (Some u)) =
              Inr (None, Some (DomainErr (PermissionDeniedFromStatus s))))
       \<and> (\<forall>s d. e = StorageError s d \<and> s \<notin> {304, 404, 403, 401} \<longrightarrow>
            snd (Get etext cget az (Some u)) =
              Inr (None, Some (DomainErr (InternalError (Error etext e)))))
       \<and> ((\<forall>s d. e \<noteq> StorageError s d) \<longrightarrow>
            snd (Get etext cget az (Some u)) =
              Inr (None, Some (DomainErr (InternalError (Error etext e)))))"
proof -
  have nf: "sublist (Host u) (''Not found: '' @ Host u @ ''/'' @ Path u)"
    by (rule sublist_appendI)
  have "sublist (Path u) ((''Not found: '' @ Host u @ ''/'') @ Path u @ [])"
    by (rule sublist_appendI)
  then have np: "sublist (Path u) (''Not found: '' @ Host u @ ''/'' @ Path u)" by simp
  show ?thesis using assms nf np
    by (cases e) (simp_all add: Get_def StatusNotModified_def StatusNotFound_def
        StatusForbidden_def StatusUnauthorized_def)
qed

theorem Get_error_translation_witness:
  "snd (Get no_text nothing_cached (failing_origin (AzInternalError (StorageErrorPtr 404 ''BlobNotFound'')))
          (Some (locator ''a=1''))) = Inr (None, Some (DomainErr (NotFound ''Not found: h//p''))) \<and>
   snd (Get no_text nothing_cached (failing_origin (AzInternalError (StorageErrorPtr 403 ''Forbidden'')))
          (Some (locator ''a=1''))) = Inr (None, Some (DomainErr (PermissionDeniedFromStatus 403))) \<and>
   snd (Get no_text nothing_cached (failing_origin (AzInternalError (StorageErrorPtr 401 ''Unauthorized'')))
          (Some (locator ''a=1''))) = Inr (None, Some (DomainErr (PermissionDeniedFromStatus 401))) \<and>
   snd (Get no_text nothing_cached (failing_origin (AzInternalError (StorageErrorPtr 500 ''ServerBusy'')))
          (Some (locator ''a=1''))) = Inr (None, Some (DomainErr (InternalError ''ServerBusy''))) \<and>
   snd (Get no_text nothing_cached (failing_origin (Foreign ''*net.OpError'' ''dial tcp: timeout''))
          (Some (locator ''a=1''))) = Inr (None, Some (DomainErr (InternalError ''dial tcp: timeout'')))"
proof -
  have a: "nothing_cached (newCacheKey (locator ''a=1'')) = (cacheEntry_zero, False)"
    by (simp add: nothing_cached_def)
  have b: "download no_text (failing_origin (AzInternalError (StorageErrorPtr s d))) (locator ''a=1'')
             (etag cacheEntry_zero) =
           ([NetDownload ''http://h/p?a=1'' (etag cacheEntry_zero)], cacheEntry_zero,
            Some (StorageError s d))" for s d
    by (simp add: download_failing_origin UnpackAzStorageError_def)
  have c: "download no_text (failing_origin (Foreign ''*net.OpError'' ''dial tcp: timeout''))
             (locator ''a=1'') (etag cacheEntry_zero) =
           ([NetDownload ''http://h/p?a=1'' (etag cacheEntry_zero)], cacheEntry_zero,
            Some (Foreign ''*net.OpError'' ''dial tcp: timeout''))"
    by (simp add: download_failing_origin UnpackAzStorageError_def)
  show ?thesis
    using Get_error_translation [where cget = nothing_cached and u = "locator ''a=1''",
        OF a b [of 404 "''BlobNotFound''"]]
      Get_error_translation [where cget = nothing_cached and u = "locator ''a=1''",
        OF a b [of 403 "''Forbidden''"]]
      Get_error_translation [where cget = nothing_cached and u = "locator ''a=1''",
        OF a b [of 401 "''Unauthorized''"]]
      Get_error_translation [where cget = nothing_cached and u = "locator ''a=1''",
        OF a b [of 500 "''ServerBusy''"]]
      Get_error_translation [where cget = nothing_cached and u = "locator ''a=1''", OF a c]
    by (simp add: locator_def)
qed

section \<open>Cache key derivation\<close>

text \<open>
  Claim C5, as stated: the locators \<^verbatim>\<open>http://h/p?a=1\<close> and \<^verbatim>\<open>http://h/p?a=2\<close>
  derive the key \<^verbatim>\<open>"h/p"\<close>. The path of a URL with a host keeps its leading slash
  (\<^verbatim>\<open>Path = "/p"\<close>), and the format \<^verbatim>\<open>"%s/%s"\<close> adds a slash of its own, so the
  key of both is \<^verbatim>\<open>"h//p"\<close>.
\<close>

theorem newCacheKey_not_h_p:
  "url_String (locator ''a=1'') = ''http://h/p?a=1'' \<and>
   url_String (locator ''a=2'') = ''http://h/p?a=2'' \<and>
   newCacheKey (locator ''a=1'') = ''h//p'' \<and>
   newCacheKey (locator ''a=1'') \<noteq> ''h/p''"
  by (simp add: url_String_locator newCacheKey_locator)

text \<open>
  Claim C5, amended: two locators that agree on host and path, whatever their query
  strings, derive the identical key, and that key is the Host field, a slash and the Path
  field; the query is never part of it. For \<^verbatim>\<open>http://h/p?a=1\<close> and
  \<^verbatim>\<open>http://h/p?a=2\<close> (Host \<^verbatim>\<open>"h"\<close>, Path \<^verbatim>\<open>"/p"\<close>) it is \<^verbatim>\<open>"h//p"\<close>.
\<close>

theorem newCacheKey_host_path:
  "Host u1 = Host u2 \<Longrightarrow> Path u1 = Path u2 \<Longrightarrow>
     newCacheKey u1 = newCacheKey u2 \<and> newCacheKey u1 = Host u1 @ ''/'' @ Path u1"
  by (simp add: newCacheKey_def)

theorem newCacheKey_host_path_witness:
  "Host (locator ''a=1'') = Host (locator ''a=2'') \<and>
   Path (locator ''a=1'') = Path (locator ''a=2'') \<and>
   RawQuery (locator ''a=1'') \<noteq> RawQuery (locator ''a=2'') \<and>
   newCacheKey (locator ''a=1'') = newCacheKey (locator ''a=2'') \<and>
   newCacheKey (locator ''a=1'') = ''h//p''"
proof -
  have a: "Host (locator ''a=1'') = Host (locator ''a=2'')" by (simp add: locator_def)
  have b: "Path (locator ''a=1'') = Path (locator ''a=2'')" by (simp add: locator_def)
  have c: "RawQuery (locator ''a=1'') \<noteq> RawQuery (locator ''a=2'')" by (simp add: locator_def)
  from newCacheKey_host_path [OF a b] a b c show ?thesis by (simp add: newCacheKey_locator)
qed

section \<open>The error translator\<close>

text \<open>
  Claim C6: for every error value, \<open>UnpackAzStorageError\<close> either finds a storage error
  in the chain of envelopes around it and returns that storage error, unwrapped, or, when
  the chain holds no storage error, returns the error it was given; nil stays nil.
\<close>

theorem UnpackAzStorageError_unwrap_or_identity:
  "UnpackAzStorageError None = None \<and>
   ((\<exists>s d. StorageErrorPtr s d \<in> set (chain e) \<and>
           UnpackAzStorageError (Some e) = Some (StorageError s d))
    \<or> ((\<forall>s d. StorageErrorPtr s d \<notin> set (chain e)) \<and>
        UnpackAzStorageError (Some e) = Some e))"
proof (cases "errors_As e")
  case None
  then show ?thesis
    by (simp add: UnpackAzStorageError_def errors_As_none_chain)
next
  case (Some sd)
  obtain s d where sd: "sd = (s, d)" by (cases sd)
  from Some sd have "StorageErrorPtr s d \<in> set (chain e)"
    by (simp add: errors_As_in_chain)
  moreover from Some sd have "UnpackAzStorageError (Some e) = Some (StorageError s d)"
    by (simp add: UnpackAzStorageError_def)
  ultimately show ?thesis
    by (auto simp: UnpackAzStorageError_def)
qed

theorem UnpackAzStorageError_unwrap_or_identity_witness:
  "UnpackAzStorageError (Some (AzInternalError (StorageErrorPtr 404 ''BlobNotFound''))) =
     Some (StorageError 404 ''BlobNotFound'') \<and>
   UnpackAzStorageError (Some (Foreign ''*net.OpError'' ''dial tcp: timeout'')) =
     Some (Foreign ''*net.OpError'' ''dial tcp: timeout'')"
  using UnpackAzStorageError_unwrap_or_identity [of "AzInternalError (StorageErrorPtr 404 ''BlobNotFound'')"]
    UnpackAzStorageError_unwrap_or_identity [of "Foreign ''*net.OpError'' ''dial tcp: timeout''"]
  by auto

section \<open>Nil locator\<close>

text \<open>
  Claim C7: called with a nil locator, \<open>Get\<close> returns an InternalError at once; its
  trace is empty, so there is no cache lookup, no download and no cache write.
\<close>

theorem Get_nil_locator:
  "Get etext cget az None =
     ([], Inr (Some [], Some (DomainErr (InternalError ''blob URL is nil'')))) \<and>
   errkind_of (InternalError ''blob URL is nil'') = InternalErrorKind"
  by (simp add: Get_def)

theorem Get_nil_locator_witness:
  "Get no_text nothing_cached (fresh_origin (Some [4, 5]) (Some ''v2'')) None =
     ([], Inr (Some [], Some (DomainErr (InternalError ''blob URL is nil''))))"
  using Get_nil_locator [of no_text nothing_cached "fresh_origin (Some [4, 5]) (Some ''v2'')"]
  by simp

section \<open>The bounded cache backend\<close>

text \<open>
  Claim C8, as stated: on the ristretto-backed cache, \<open>set k v\<close> followed at once by
  \<open>get k\<close> returns \<open>(v, true)\<close> when nothing was evicted in between. On a new cache
  the library accepts the item (\<^verbatim>\<open>Set\<close> returns true) and only puts it in its
  buffer, so the \<open>get\<close> that follows at once is a miss, with nothing evicted.
\<close>

theorem ristrettoCache_get_right_after_set_misses:
  "snd (Cache_Set NewCache ''h//p'' (ICacheEntry \<lparr>chunk = Some [4, 5], etag = Some ''v2''\<rparr>) 0) = True \<and>
   ristrettoCache_get
     (ristrettoCache_set NewCache ''h//p'' \<lparr>chunk = Some [4, 5], etag = Some ''v2''\<rparr>) ''h//p'' =
     Inr (cacheEntry_zero, False)"
  by (simp add: ristrettoCache_get_def ristrettoCache_set_def Cache_Set_def Cache_Get_def
      NewCache_def setBufSize_def)

text \<open>
  Claim C8, amended: on the ristretto-backed cache, for every key \<open>k\<close> and entry \<open>v\<close>,
  \<open>set k v\<close> followed by \<open>get k\<close> returns \<open>(v, true)\<close> at once when \<open>k\<close> is already
  in the store, and, when \<open>k\<close> is new, once the library has taken the waiting items out
  of its buffer, provided the buffer had room for the item and the policy added it and
  did not evict \<open>k\<close>.
\<close>

theorem ristrettoCache_set_get:
  "(store c k \<noteq> None \<longrightarrow>
      ristrettoCache_get (ristrettoCache_set c k v) k = Inr (v, True)) \<and>
   (store c k = None \<and> length (setBuf c) < setBufSize \<and>
    pol (fold (processItem pol) (setBuf c) (store c)) k 0 = (victims, True) \<and>
    k \<notin> set victims \<longrightarrow>
      ristrettoCache_get (processItems pol (ristrettoCache_set c k v)) k = Inr (v, True))"
proof (intro conjI impI)
  assume "store c k \<noteq> None"
  then show "ristrettoCache_get (ristrettoCache_set c k v) k = Inr (v, True)"
    by (auto simp: ristrettoCache_get_def ristrettoCache_set_def Cache_Set_def Cache_Get_def
        Let_def)
next
  assume h: "store c k = None \<and> length (setBuf c) < setBufSize \<and>
    pol (fold (processItem pol) (setBuf c) (store c)) k 0 = (victims, True) \<and>
    k \<notin> set victims"
  then have buf: "ristrettoCache_set c k v =
      c\<lparr>setBuf := setBuf c @ [\<lparr>flag = itemNew, Key = k, Value = ICacheEntry v, Cost = 0\<rparr>]\<rparr>"
    by (simp add: ristrettoCache_set_def Cache_Set_def Let_def)
  from h have "store (processItems pol (ristrettoCache_set c k v)) k = Some (ICacheEntry v)"
    by (simp add: buf processItems_def processItem_def fold_delete_other)
  then show "ristrettoCache_get (processItems pol (ristrettoCache_set c k v)) k = Inr (v, True)"
    by (simp add: ristrettoCache_get_def Cache_Get_def)
qed

theorem ristrettoCache_set_get_witness:
  "ristrettoCache_get
     (processItems admit_all
        (ristrettoCache_set NewCache ''h//p'' \<lparr>chunk = Some [4, 5], etag = Some ''v2''\<rparr>))
     ''h//p'' = Inr (\<lparr>chunk = Some [4, 5], etag = Some ''v2''\<rparr>, True) \<and>
   ristrettoCache_get
     (ristrettoCache_set
        (processItems admit_all
           (ristrettoCache_set NewCache ''h//p'' \<lparr>chunk = Some [4, 5], etag = Some ''v2''\<rparr>))
        ''h//p'' \<lparr>chunk = Some [6], etag = Some ''v3''\<rparr>)
     ''h//p'' = Inr (\<lparr>chunk = Some [6], etag = Some ''v3''\<rparr>, True)"
proof -
  have new: "store NewCache ''h//p'' = None \<and> length (setBuf NewCache) < setBufSize \<and>
      admit_all (fold (processItem admit_all) (setBuf NewCache) (store NewCache)) ''h//p'' 0 =
        ([], True) \<and>
      ''h//p'' \<notin> set []"
    by (simp add: NewCache_def setBufSize_def admit_all_def)
  have held: "store (processItems admit_all
        (ristrettoCache_set NewCache ''h//p'' \<lparr>chunk = Some [4, 5], etag = Some ''v2''\<rparr>))
      ''h//p'' \<noteq> None"
    by (simp add: processItems_def processItem_def ristrettoCache_set_def Cache_Set_def
        NewCache_def setBufSize_def admit_all_def)
  show ?thesis
    using new held
      ristrettoCache_set_get [where c = NewCache and k = "''h//p''" and pol = admit_all
        and victims = "[]" and v = "\<lparr>chunk = Some [4, 5], etag = Some ''v2''\<rparr>"]
      ristrettoCache_set_get [where c = "processItems admit_all
          (ristrettoCache_set NewCache ''h//p'' \<lparr>chunk = Some [4, 5], etag = Some ''v2''\<rparr>)"
        and k = "''h//p''" and v = "\<lparr>chunk = Some [6], etag = Some ''v3''\<rparr>"]
    by blast
qed

section \<open>The manifest gate\<close>

text \<open>
  Claim C9: the fetch of the manifest is the first thing a request does (its trace is a
  prefix of the request's trace, so nothing is fetched ahead of it or beside it), and if
  it fails with any error the request is aborted before any fragment fetch: the trace of
  the request is then the trace of \<open>FetchManifest\<close> alone, whatever the request would
  have fetched afterwards, and its result is the abort with the manifest's error.
\<close>

theorem handle_request_manifest_gate:
  "prefix (fst (FetchManifest az containerURL))
          (fst (handle_request az containerURL fetch_fragments)) \<and>
   (snd (FetchManifest az containerURL) = Inr (manifest, Some err) \<longrightarrow>
      handle_request az containerURL fetch_fragments =
        (fst (FetchManifest az containerURL), Inr (Aborted err)))"
proof (cases "FetchManifest az containerURL")
  case (Pair tr res)
  show ?thesis
  proof (cases res)
    case (Inl p)
    with Pair show ?thesis by (simp add: handle_request_def)
  next
    case (Inr ret)
    obtain m e where ret: "ret = (m, e)" by (cases ret)
    show ?thesis
    proof (cases e)
      case None
      with Pair Inr ret show ?thesis
        by (simp add: handle_request_def split: prod.splits)
    next
      case (Some e')
      with Pair Inr ret show ?thesis by (simp add: handle_request_def)
    qed
  qed
qed

theorem handle_request_manifest_gate_witness:
  "snd (FetchManifest (failing_origin (AzInternalError (StorageErrorPtr 403 ''AuthorizationFailure'')))
          (Some (locator []))) = Inr (None, Some (StorageError 403 ''AuthorizationFailure'')) \<and>
   handle_request (failing_origin (AzInternalError (StorageErrorPtr 403 ''AuthorizationFailure'')))
       (Some (locator [])) two_fragments =
     ([NetContainerDownload ''http://h/p'' ''manifest.json''],
      Inr (Aborted (StorageError 403 ''AuthorizationFailure'')))"
proof -
  have f: "FetchManifest (failing_origin (AzInternalError (StorageErrorPtr 403 ''AuthorizationFailure'')))
          (Some (locator [])) =
         ([NetContainerDownload ''http://h/p'' ''manifest.json''],
          Inr (None, Some (StorageError 403 ''AuthorizationFailure'')))"
    by (simp add: FetchManifest_def failing_origin_def url_String_locator UnpackAzStorageError_def)
  then have a: "snd (FetchManifest (failing_origin (AzInternalError (StorageErrorPtr 403 ''AuthorizationFailure'')))
          (Some (locator []))) = Inr (None, Some (StorageError 403 ''AuthorizationFailure''))"
    by simp
  from handle_request_manifest_gate
         [where az = "failing_origin (AzInternalError (StorageErrorPtr 403 ''AuthorizationFailure''))"
            and containerURL = "Some (locator [])" and fetch_fragments = two_fragments
            and manifest = None and err = "StorageError 403 ''AuthorizationFailure''"] a f
  show ?thesis by simp
qed

end
